theory Spec2Isabelle
  imports Complex_Main "HOL-Library.Log_Nat"
begin

section \<open>Numbers, vectors and the coordinate transform\<close>

text \<open>
  The simulator computes on \<^verbatim>\<open>Real\<close> (a C++ floating-point type declared in
  \<^verbatim>\<open>core.h\<close>). For the wrapper and for the step-size rule of the driver
  \<^verbatim>\<open>Real\<close> is read as the mathematical reals: rounding, infinities and NaN are
  outside that reading. Where the driver accumulates time, rounding decides, and the
  loop is modelled a second time in binary64 arithmetic.
  \<^verbatim>\<open>Vec2R\<close> is a pair of reals, \<^verbatim>\<open>Vec2st\<close> a pair of sizes.
\<close>

type_synonym Real = real
type_synonym Vec2R = "Real \<times> Real"
type_synonym Vec2st = "nat \<times> nat"

text \<open>
  \<^verbatim>\<open>Transform xform(g_dx, Vec2R(0))\<close>, read back through \<^verbatim>\<open>xform.dx()\<close>
  and \<^verbatim>\<open>xform.offset()\<close>: a grid spacing and a world-space offset.
\<close>

record Transform =
  xform_dx :: Real
  xform_offset :: Vec2R

section \<open>Grids, level sets and particles\<close>

text \<open>
  Modelled from the spec: \<^verbatim>\<open>ScalarGrid.h\<close> is not among the sources. A scalar grid
  is a fixed-size array of samples over a Transform, created with a resolution and an
  optional uniform fill value. A sample is \<open>Some v\<close> once a value has been assigned to
  it and \<open>None\<close> as long as construction gave it none.
\<close>

record ScalarGrid =
  sg_xform :: Transform
  sg_size :: Vec2st
  sg_grid :: "Real option list"

definition ScalarGrid_new :: "Transform \<Rightarrow> Vec2st \<Rightarrow> ScalarGrid" where
  "ScalarGrid_new xform nx =
     \<lparr>sg_xform = xform, sg_size = nx, sg_grid = replicate (fst nx * snd nx) None\<rparr>"

definition ScalarGrid_val :: "Transform \<Rightarrow> Vec2st \<Rightarrow> Real \<Rightarrow> ScalarGrid" where
  "ScalarGrid_val xform nx val =
     \<lparr>sg_xform = xform, sg_size = nx, sg_grid = replicate (fst nx * snd nx) (Some val)\<rparr>"

text \<open>
  Modelled from the spec: \<^verbatim>\<open>VectorGrid.h\<close> is not among the sources. A staggered
  vector grid over \<open>nx\<close> cells keeps one scalar sample per cell face: the faces normal to
  the first axis form a grid one sample wider than the cells, the faces normal to the
  second axis a grid one sample taller. Both component grids carry the Transform of the
  vector grid. \<^verbatim>\<open>STAGGERED\<close> is the only sampling the sources name.
\<close>

datatype VectorGridSettings = STAGGERED

record VectorGrid =
  vg_xform :: Transform
  vg_size :: Vec2st
  vg_stype :: VectorGridSettings
  vg_grid_x :: ScalarGrid
  vg_grid_y :: ScalarGrid

fun face_size :: "VectorGridSettings \<Rightarrow> Vec2st \<Rightarrow> nat \<Rightarrow> Vec2st" where
  "face_size STAGGERED nx axis =
     (if axis = 0 then (fst nx + 1, snd nx) else (fst nx, snd nx + 1))"

definition VectorGrid_new :: "Transform \<Rightarrow> Vec2st \<Rightarrow> VectorGridSettings \<Rightarrow> VectorGrid" where
  "VectorGrid_new xform nx stype =
     \<lparr>vg_xform = xform, vg_size = nx, vg_stype = stype,
      vg_grid_x = ScalarGrid_new xform (face_size stype nx 0),
      vg_grid_y = ScalarGrid_new xform (face_size stype nx 1)\<rparr>"

definition VectorGrid_val ::
  "Transform \<Rightarrow> Vec2st \<Rightarrow> Real \<Rightarrow> VectorGridSettings \<Rightarrow> VectorGrid" where
  "VectorGrid_val xform nx val stype =
     \<lparr>vg_xform = xform, vg_size = nx, vg_stype = stype,
      vg_grid_x = ScalarGrid_val xform (face_size stype nx 0) val,
      vg_grid_y = ScalarGrid_val xform (face_size stype nx 1) val\<rparr>"

definition vg_samples :: "VectorGrid \<Rightarrow> Real option list" where
  "vg_samples g = sg_grid (vg_grid_x g) @ sg_grid (vg_grid_y g)"

text \<open>
  Modelled from the spec: \<^verbatim>\<open>LevelSet2d.h\<close> is not among the sources. A level set is
  a scalar grid of signed distances together with a narrow-band half-width in cells.
  The constructor \<^verbatim>\<open>LevelSet2D(xform, nx, nb)\<close> takes no distances, so the fresh
  grid has none assigned. \<^verbatim>\<open>dx()\<close>, \<^verbatim>\<open>xform()\<close> and \<^verbatim>\<open>size()\<close> read the
  underlying grid. \<^verbatim>\<open>is_matched\<close> is the test the orchestrator asserts before it
  takes a foreign field: the field is sampled over the same Transform (spacing and
  offset identical) and has the same dimensions.
\<close>

record LevelSet2D =
  ls_phi :: ScalarGrid
  ls_nb :: nat

definition LevelSet2D_new :: "Transform \<Rightarrow> Vec2st \<Rightarrow> nat \<Rightarrow> LevelSet2D" where
  "LevelSet2D_new xform nx nb = \<lparr>ls_phi = ScalarGrid_new xform nx, ls_nb = nb\<rparr>"

definition ls_xform :: "LevelSet2D \<Rightarrow> Transform" where
  "ls_xform l = sg_xform (ls_phi l)"

definition ls_size :: "LevelSet2D \<Rightarrow> Vec2st" where
  "ls_size l = sg_size (ls_phi l)"

definition ls_dx :: "LevelSet2D \<Rightarrow> Real" where
  "ls_dx l = xform_dx (ls_xform l)"

definition is_matched :: "LevelSet2D \<Rightarrow> ScalarGrid \<Rightarrow> bool" where
  "is_matched l grid = (ls_size l = sg_size grid \<and> ls_xform l = sg_xform grid)"

text \<open>
  Modelled from the spec: \<^verbatim>\<open>MarkerParticles.h\<close> is not among the sources. A particle
  set is a collection of positions, empty until it is seeded from a level set. The four
  constructor arguments are kept as the call sites give them; the last one is optional.
\<close>

record MarkerParticles =
  mp_args :: "Real \<times> nat \<times> Real \<times> bool option"
  mp_points :: "Vec2R list"

definition MarkerParticles_new :: "Real \<Rightarrow> nat \<Rightarrow> Real \<Rightarrow> bool option \<Rightarrow> MarkerParticles" where
  "MarkerParticles_new a b c d = \<lparr>mp_args = (a, b, c, d), mp_points = []\<rparr>"

section \<open>The simulation wrapper \<^verbatim>\<open>FlipParticlesSimulation\<close>\<close>

text \<open>
  The private members in declaration order. \<^verbatim>\<open>m_target_volume\<close> and
  \<^verbatim>\<open>m_accum_error\<close> are plain \<^verbatim>\<open>Real\<close> members without an initialiser: they are
  \<open>None\<close> while no value has been stored in them.
\<close>

record FlipParticlesSimulation =
  m_vel :: VectorGrid
  m_collision_vel :: VectorGrid
  m_surface :: LevelSet2D
  m_collision :: LevelSet2D
  m_variableviscosity :: ScalarGrid
  m_particles :: MarkerParticles
  m_air_volume :: bool
  m_air_surface :: LevelSet2D
  m_air_particles :: MarkerParticles
  m_xform :: Transform
  m_moving_solids :: bool
  m_solve_viscosity :: bool
  m_enforce_bubbles :: bool
  m_volume_correction :: bool
  m_st_scale :: Real
  m_target_volume :: "Real option"
  m_accum_error :: "Real option"

text \<open>
  The constructor. The initialiser list sets \<^verbatim>\<open>m_xform\<close>, the five flags and
  \<^verbatim>\<open>m_st_scale\<close>; the body assigns the two velocity grids, the level sets and the
  particle sets. \<^verbatim>\<open>m_variableviscosity\<close> is default-constructed and not assigned;
  the default \<^verbatim>\<open>ScalarGrid\<close> is not in the sources and is the parameter \<open>dflt\<close>.
  The narrow-band argument is optional with default 5.
\<close>

definition FlipParticlesSimulation_new ::
  "ScalarGrid \<Rightarrow> Transform \<Rightarrow> Vec2st \<Rightarrow> nat option \<Rightarrow> FlipParticlesSimulation" where
  "FlipParticlesSimulation_new dflt xform nx nb_arg =
     (let nb = (case nb_arg of None \<Rightarrow> 5 | Some n \<Rightarrow> n);
          surface = LevelSet2D_new xform nx nb
      in \<lparr>m_vel = VectorGrid_new xform nx STAGGERED,
          m_collision_vel = VectorGrid_val xform nx 0 STAGGERED,
          m_surface = surface,
          m_collision = LevelSet2D_new xform nx nb,
          m_variableviscosity = dflt,
          m_particles = MarkerParticles_new (ls_dx surface / 2) 4 2 (Some True),
          m_air_volume = False,
          m_air_surface = LevelSet2D_new xform nx nb,
          m_air_particles = MarkerParticles_new (ls_dx surface / 2) 4 2 None,
          m_xform = xform,
          m_moving_solids = False,
          m_solve_viscosity = False,
          m_enforce_bubbles = False,
          m_volume_correction = False,
          m_st_scale = 0,
          m_target_volume = None,
          m_accum_error = None\<rparr>)"

subsection \<open>The inline operations\<close>

definition set_surface_tension :: "Real \<Rightarrow> FlipParticlesSimulation \<Rightarrow> FlipParticlesSimulation" where
  "set_surface_tension st_scale s = s\<lparr>m_st_scale := st_scale\<rparr>"

definition set_enforce_bubbles :: "FlipParticlesSimulation \<Rightarrow> FlipParticlesSimulation" where
  "set_enforce_bubbles s = s\<lparr>m_enforce_bubbles := True\<rparr>"

definition disable_moving_solids :: "FlipParticlesSimulation \<Rightarrow> FlipParticlesSimulation" where
  "disable_moving_solids s = s\<lparr>m_moving_solids := False\<rparr>"

text \<open>
  Modelled from the spec: \<^verbatim>\<open>compute_volume\<close> is declared \<^verbatim>\<open>const\<close> in the header
  and defined in a file that is not among the sources. It delegates to the volume
  estimation of a level set: of the liquid surface for \<^verbatim>\<open>liquid = true\<close>, of the air
  surface otherwise. The estimation supersamples the cells of the distance grid and its
  result depends on the distance values and the supersampling factor only; it is the
  parameter \<open>est\<close>, and \<open>samples\<close> is the factor \<^verbatim>\<open>compute_volume\<close> asks for.
  Being \<^verbatim>\<open>const\<close>, the query returns a number and no new state.
\<close>

type_synonym VolumeEstimate = "nat \<Rightarrow> ScalarGrid \<Rightarrow> Real"

definition estimate_volume :: "VolumeEstimate \<Rightarrow> LevelSet2D \<Rightarrow> nat \<Rightarrow> Real" where
  "estimate_volume est l samples = est samples (ls_phi l)"

definition compute_volume ::
  "VolumeEstimate \<Rightarrow> nat \<Rightarrow> FlipParticlesSimulation \<Rightarrow> bool \<Rightarrow> Real" where
  "compute_volume est samples s liquid =
     estimate_volume est (if liquid then m_surface s else m_air_surface s) samples"

text \<open>
  \<^verbatim>\<open>set_volume_correction\<close> runs three statements in order; the volume is
  computed on the state in which the flag has already been raised.
\<close>

definition set_volume_correction ::
  "VolumeEstimate \<Rightarrow> nat \<Rightarrow> FlipParticlesSimulation \<Rightarrow> FlipParticlesSimulation" where
  "set_volume_correction est samples s =
     (let s1 = s\<lparr>m_volume_correction := True\<rparr>;
          s2 = s1\<lparr>m_target_volume := Some (compute_volume est samples s1 True)\<rparr>
      in s2\<lparr>m_accum_error := Some 0\<rparr>)"

text \<open>
  The two overloads of \<^verbatim>\<open>set_viscosity\<close>. The first asserts that the field is
  matched with the liquid surface; a failed \<^verbatim>\<open>assert\<close> aborts the call, which is the
  result \<open>Inl AssertionFailure\<close> (the assertion is taken as compiled in). The second
  takes an optional coefficient with default 1 and has no failing statement.
\<close>

datatype error = AssertionFailure

definition set_viscosity_grid ::
  "ScalarGrid \<Rightarrow> FlipParticlesSimulation \<Rightarrow> error + FlipParticlesSimulation" where
  "set_viscosity_grid visc_coeff s =
     (if is_matched (m_surface s) visc_coeff
      then Inr (s\<lparr>m_variableviscosity := visc_coeff, m_solve_viscosity := True\<rparr>)
      else Inl AssertionFailure)"

definition set_viscosity ::
  "Real option \<Rightarrow> FlipParticlesSimulation \<Rightarrow> FlipParticlesSimulation" where
  "set_viscosity arg s =
     (let visc_coeff = (case arg of None \<Rightarrow> 1 | Some c \<Rightarrow> c)
      in s\<lparr>m_variableviscosity :=
             ScalarGrid_val (ls_xform (m_surface s)) (ls_size (m_surface s)) visc_coeff,
           m_solve_viscosity := True\<rparr>)"

text \<open>
  The inline operations as a command language, so that sequences of calls on one
  simulation can be spoken about. A call that fails stops the sequence.
\<close>

datatype call =
    Set_surface_tension Real
  | Set_enforce_bubbles
  | Set_volume_correction
  | Set_viscosity_grid ScalarGrid
  | Set_viscosity "Real option"
  | Disable_moving_solids

fun invoke ::
  "VolumeEstimate \<Rightarrow> nat \<Rightarrow> FlipParticlesSimulation \<Rightarrow> call \<Rightarrow> error + FlipParticlesSimulation" where
  "invoke est k s (Set_surface_tension c) = Inr (set_surface_tension c s)"
| "invoke est k s Set_enforce_bubbles = Inr (set_enforce_bubbles s)"
| "invoke est k s Set_volume_correction = Inr (set_volume_correction est k s)"
| "invoke est k s (Set_viscosity_grid g) = set_viscosity_grid g s"
| "invoke est k s (Set_viscosity c) = Inr (set_viscosity c s)"
| "invoke est k s Disable_moving_solids = Inr (disable_moving_solids s)"

fun invoke_all ::
  "VolumeEstimate \<Rightarrow> nat \<Rightarrow> FlipParticlesSimulation \<Rightarrow> call list \<Rightarrow> error + FlipParticlesSimulation" where
  "invoke_all est k s [] = Inr s"
| "invoke_all est k s (c # cs) =
     (case invoke est k s c of Inl e \<Rightarrow> Inl e | Inr s' \<Rightarrow> invoke_all est k s' cs)"

text \<open>
  A simple estimate for concrete runs: the number of samples with a non-positive
  distance times the area of \<open>samples\<^sup>2\<close> sub-cells, that is, every cell counted whole.
\<close>

definition count_inside :: VolumeEstimate where
  "count_inside samples grid =
     real (length (filter (\<lambda>v. case v of None \<Rightarrow> False | Some d \<Rightarrow> d \<le> 0) (sg_grid grid)))
       * (xform_dx (sg_xform grid))\<^sup>2"

section \<open>The driver \<^verbatim>\<open>testsurfacetension.cpp\<close>\<close>


text \<open>
  What the callback does to the outside is kept as a log, in program order: calls on
  the renderer, the line printed when a substep is throttled, and the two calls on the
  simulation with the time step each one is given.
\<close>

datatype event =
    Renderer_clear
  | Print_throttle Real
  | Add_force Vec2R Real
  | Run_simulation Real
  | Draw_surface
  | Draw_air
  | Draw_collision
  | Sgi_screenshot int



definition g_dx :: Real where
  "g_dx = 0.025"








section \<open>Binary64 arithmetic\<close>













section \<open>The substep loop in binary64\<close>


















section \<open>Concrete scenes\<close>

text \<open>
  The Transform of the driver's scene, \<^verbatim>\<open>Transform xform(g_dx, Vec2R(0))\<close>, and a
  simulation of two by two cells over it. Its default viscosity grid is taken to be
  an empty grid over the unit Transform.
\<close>

definition scene_xform :: Transform where
  "scene_xform = \<lparr>xform_dx = g_dx, xform_offset = (0, 0)\<rparr>"

definition empty_grid :: ScalarGrid where
  "empty_grid = ScalarGrid_new \<lparr>xform_dx = 1, xform_offset = (0, 0)\<rparr> (0, 0)"

definition fresh_sim :: FlipParticlesSimulation where
  "fresh_sim = FlipParticlesSimulation_new empty_grid scene_xform (2, 2) None"

text \<open>The same simulation with a liquid surface that has two cells inside.\<close>

definition pool_distances :: ScalarGrid where
  "pool_distances =
     \<lparr>sg_xform = scene_xform, sg_size = (2, 2),
      sg_grid = [Some (- 1), Some 1, Some (- 1 / 2), Some 2]\<rparr>"

definition pool_sim :: FlipParticlesSimulation where
  "pool_sim = fresh_sim\<lparr>m_surface := \<lparr>ls_phi = pool_distances, ls_nb = 5\<rparr>\<rparr>"

text \<open>
  Three viscosity fields: over another Transform, of another resolution, and matched
  with the pool.
\<close>

definition coarse_grid :: ScalarGrid where
  "coarse_grid = ScalarGrid_val \<lparr>xform_dx = 1, xform_offset = (0, 0)\<rparr> (2, 2) 3"

definition wide_grid :: ScalarGrid where
  "wide_grid = ScalarGrid_val scene_xform (3, 2) 3"

definition honey_grid :: ScalarGrid where
  "honey_grid = ScalarGrid_val scene_xform (2, 2) 3"

section \<open>Properties of the wrapper\<close>

lemma compute_volume_flag:
  "compute_volume est k (s\<lparr>m_volume_correction := b\<rparr>) liquid = compute_volume est k s liquid"
  by (simp add: compute_volume_def)

text \<open>
  C9. For every Transform, resolution and narrow-band width (given or defaulted), and
  whatever the default viscosity grid is, the freshly constructed simulation has its
  five feature flags (moving solids, viscosity solve, bubble enforcement, volume
  correction, air tracking) false and its surface-tension scale 0.
\<close>

theorem fresh_flags_off:
  "m_moving_solids (FlipParticlesSimulation_new dflt xform nx nb) = False
   \<and> m_solve_viscosity (FlipParticlesSimulation_new dflt xform nx nb) = False
   \<and> m_enforce_bubbles (FlipParticlesSimulation_new dflt xform nx nb) = False
   \<and> m_volume_correction (FlipParticlesSimulation_new dflt xform nx nb) = False
   \<and> m_air_volume (FlipParticlesSimulation_new dflt xform nx nb) = False
   \<and> m_st_scale (FlipParticlesSimulation_new dflt xform nx nb) = 0"
  by (simp add: FlipParticlesSimulation_new_def Let_def)

text \<open>
  C1. \<^verbatim>\<open>set_volume_correction()\<close> raises the volume-correction flag, stores as
  target volume the liquid volume \<^verbatim>\<open>compute_volume(true)\<close> of the state it is
  called on, and sets the accumulated error to zero. (The volume is computed after the
  flag is raised; the flag does not enter the volume.)
\<close>

theorem volume_correction_captures:
  "m_volume_correction (set_volume_correction est k s) = True
   \<and> m_target_volume (set_volume_correction est k s) = Some (compute_volume est k s True)
   \<and> m_accum_error (set_volume_correction est k s) = Some 0"
  by (simp add: set_volume_correction_def compute_volume_flag Let_def)

text \<open>
  C3. \<^verbatim>\<open>set_viscosity\<close> with a field whose Transform or dimensions differ from
  those of the liquid surface fails on its assertion. With a matched field the call
  succeeds, stores the field as it is and enables the viscosity solve; nothing else
  changes.
\<close>

theorem set_viscosity_grid_asserts_match:
  "(ls_xform (m_surface s) \<noteq> sg_xform grid \<or> ls_size (m_surface s) \<noteq> sg_size grid
      \<longrightarrow> set_viscosity_grid grid s = Inl AssertionFailure)
   \<and> (ls_xform (m_surface s) = sg_xform grid \<and> ls_size (m_surface s) = sg_size grid
      \<longrightarrow> set_viscosity_grid grid s
            = Inr (s\<lparr>m_variableviscosity := grid, m_solve_viscosity := True\<rparr>)
        \<and> (\<exists>s'. set_viscosity_grid grid s = Inr s'
                \<and> m_variableviscosity s' = grid \<and> m_solve_viscosity s' = True))"
  by (auto simp add: set_viscosity_grid_def is_matched_def)

theorem set_viscosity_grid_asserts_match_witness:
  "ls_xform (m_surface pool_sim) \<noteq> sg_xform coarse_grid
   \<and> set_viscosity_grid coarse_grid pool_sim = Inl AssertionFailure
   \<and> ls_size (m_surface pool_sim) \<noteq> sg_size wide_grid
   \<and> set_viscosity_grid wide_grid pool_sim = Inl AssertionFailure
   \<and> ls_xform (m_surface pool_sim) = sg_xform honey_grid
   \<and> ls_size (m_surface pool_sim) = sg_size honey_grid
   \<and> set_viscosity_grid honey_grid pool_sim
       = Inr (pool_sim\<lparr>m_variableviscosity := honey_grid, m_solve_viscosity := True\<rparr>)"
proof -
  have a: "ls_xform (m_surface pool_sim) \<noteq> sg_xform coarse_grid"
    by (simp add: pool_sim_def pool_distances_def coarse_grid_def ScalarGrid_val_def
        ls_xform_def scene_xform_def g_dx_def)
  have b: "ls_size (m_surface pool_sim) \<noteq> sg_size wide_grid"
    by (simp add: pool_sim_def pool_distances_def wide_grid_def ScalarGrid_val_def ls_size_def)
  have c: "ls_xform (m_surface pool_sim) = sg_xform honey_grid
      \<and> ls_size (m_surface pool_sim) = sg_size honey_grid"
    by (simp add: pool_sim_def pool_distances_def honey_grid_def ScalarGrid_val_def
        ls_xform_def ls_size_def)
  show ?thesis
    using a b c
      set_viscosity_grid_asserts_match [of pool_sim coarse_grid]
      set_viscosity_grid_asserts_match [of pool_sim wide_grid]
      set_viscosity_grid_asserts_match [of pool_sim honey_grid]
    by simp
qed

text \<open>
  C6. \<^verbatim>\<open>set_viscosity(coefficient)\<close>, with the coefficient 1 when none is given,
  stores a viscosity grid with the Transform and the size of the liquid surface and
  every sample equal to the coefficient, and enables the viscosity solve. It has no
  failing branch: as a command it always returns a state.
\<close>

theorem set_viscosity_uniform:
  "sg_xform (m_variableviscosity (set_viscosity arg s)) = ls_xform (m_surface s)
   \<and> sg_size (m_variableviscosity (set_viscosity arg s)) = ls_size (m_surface s)
   \<and> sg_grid (m_variableviscosity (set_viscosity arg s))
       = replicate (fst (ls_size (m_surface s)) * snd (ls_size (m_surface s)))
           (Some (case arg of None \<Rightarrow> 1 | Some c \<Rightarrow> c))
   \<and> m_solve_viscosity (set_viscosity arg s) = True
   \<and> invoke est k s (Set_viscosity arg) = Inr (set_viscosity arg s)"
  by (simp add: set_viscosity_def ScalarGrid_val_def Let_def)

lemma invoke_volume_fields:
  "invoke est k s c = Inr s' \<Longrightarrow>
   m_target_volume s' = (if c = Set_volume_correction then Some (compute_volume est k s True)
                          else m_target_volume s)
   \<and> m_accum_error s' = (if c = Set_volume_correction then Some 0 else m_accum_error s)"
  by (cases c)
    (auto simp add: set_surface_tension_def set_enforce_bubbles_def set_volume_correction_def
      set_viscosity_grid_def set_viscosity_def disable_moving_solids_def compute_volume_flag
      Let_def split: if_splits)

lemma invoke_all_volume_fields:
  "invoke_all est k s cs = Inr s' \<Longrightarrow>
   (m_target_volume s' = None) = (m_target_volume s = None \<and> Set_volume_correction \<notin> set cs)
   \<and> (m_accum_error s' = None) = (m_accum_error s = None \<and> Set_volume_correction \<notin> set cs)"
proof (induction cs arbitrary: s)
  case Nil
  then show ?case by simp
next
  case (Cons c cs)
  from Cons.prems obtain s1 where
    one: "invoke est k s c = Inr s1" and rest: "invoke_all est k s1 cs = Inr s'"
    by (auto split: sum.splits)
  from invoke_volume_fields [OF one] Cons.IH [OF rest] show ?case
    by (cases "c = Set_volume_correction") auto
qed

text \<open>
  C7. The constructor stores nothing in \<^verbatim>\<open>m_target_volume\<close> and
  \<^verbatim>\<open>m_accum_error\<close>. After any sequence of the inline operations on a fresh
  simulation the two members hold a value exactly if \<^verbatim>\<open>set_volume_correction\<close>
  was among the calls, and that call stores the current liquid volume and zero.
\<close>

theorem volume_fields_defined_by_correction:
  "m_target_volume (FlipParticlesSimulation_new dflt xform nx nb) = None
   \<and> m_accum_error (FlipParticlesSimulation_new dflt xform nx nb) = None
   \<and> (invoke_all est k (FlipParticlesSimulation_new dflt xform nx nb) cs = Inr s \<longrightarrow>
        (m_target_volume s = None) = (Set_volume_correction \<notin> set cs)
        \<and> (m_accum_error s = None) = (Set_volume_correction \<notin> set cs))
   \<and> m_target_volume (set_volume_correction est k s0) = Some (compute_volume est k s0 True)
   \<and> m_accum_error (set_volume_correction est k s0) = Some 0"
proof -
  have fresh: "m_target_volume (FlipParticlesSimulation_new dflt xform nx nb) = None
     \<and> m_accum_error (FlipParticlesSimulation_new dflt xform nx nb) = None"
    by (simp add: FlipParticlesSimulation_new_def Let_def)
  have seq: "invoke_all est k (FlipParticlesSimulation_new dflt xform nx nb) cs = Inr s \<longrightarrow>
        (m_target_volume s = None) = (Set_volume_correction \<notin> set cs)
        \<and> (m_accum_error s = None) = (Set_volume_correction \<notin> set cs)"
    using invoke_all_volume_fields [of est k "FlipParticlesSimulation_new dflt xform nx nb" cs s]
      fresh
    by simp
  have cap: "m_target_volume (set_volume_correction est k s0)
       = Some (compute_volume est k s0 True)
     \<and> m_accum_error (set_volume_correction est k s0) = Some 0"
    by (simp add: set_volume_correction_def compute_volume_flag Let_def)
  from fresh seq cap show ?thesis by simp
qed

theorem volume_fields_defined_by_correction_witness:
  "invoke_all count_inside 3 fresh_sim
       [Set_surface_tension 10, Set_enforce_bubbles, Set_viscosity None]
     = Inr (set_viscosity None (set_enforce_bubbles (set_surface_tension 10 fresh_sim)))
   \<and> m_target_volume (set_viscosity None (set_enforce_bubbles (set_surface_tension 10 fresh_sim)))
       = None
   \<and> m_accum_error (set_viscosity None (set_enforce_bubbles (set_surface_tension 10 fresh_sim)))
       = None
   \<and> invoke_all count_inside 3 fresh_sim [Set_enforce_bubbles, Set_volume_correction]
     = Inr (set_volume_correction count_inside 3 (set_enforce_bubbles fresh_sim))
   \<and> m_target_volume (set_volume_correction count_inside 3 (set_enforce_bubbles fresh_sim))
       = Some 0
   \<and> m_accum_error (set_volume_correction count_inside 3 (set_enforce_bubbles fresh_sim))
       = Some 0"
proof -
  have a: "invoke_all count_inside 3 fresh_sim
       [Set_surface_tension 10, Set_enforce_bubbles, Set_viscosity None]
     = Inr (set_viscosity None (set_enforce_bubbles (set_surface_tension 10 fresh_sim)))"
    by simp
  have b: "invoke_all count_inside 3 fresh_sim [Set_enforce_bubbles, Set_volume_correction]
     = Inr (set_volume_correction count_inside 3 (set_enforce_bubbles fresh_sim))"
    by simp
  have c: "compute_volume count_inside 3 (set_enforce_bubbles fresh_sim) True = 0"
    by (simp add: compute_volume_def estimate_volume_def count_inside_def
        set_enforce_bubbles_def fresh_sim_def FlipParticlesSimulation_new_def
        LevelSet2D_new_def ScalarGrid_new_def Let_def)
  show ?thesis
    using a b c
      volume_fields_defined_by_correction [of empty_grid scene_xform "(2, 2)" None
        count_inside 3 "[Set_surface_tension 10, Set_enforce_bubbles, Set_viscosity None]"
        "set_viscosity None (set_enforce_bubbles (set_surface_tension 10 fresh_sim))"
        "set_enforce_bubbles fresh_sim"]
      volume_fields_defined_by_correction [of empty_grid scene_xform "(2, 2)" None
        count_inside 3 "[Set_enforce_bubbles, Set_volume_correction]"
        "set_volume_correction count_inside 3 (set_enforce_bubbles fresh_sim)"
        "set_enforce_bubbles fresh_sim"]
    by (simp add: fresh_sim_def)
qed

text \<open>
  C8. \<^verbatim>\<open>set_surface_tension(scale)\<close> stores the scale in \<^verbatim>\<open>m_st_scale\<close> and
  changes no other member: putting the old scale back gives the old state, and each
  grid, level set, particle set, flag and volume member reads as before. Scale 0 is
  the scale of a fresh simulation, on which the call changes nothing at all.
\<close>

theorem set_surface_tension_frame:
  "m_st_scale (set_surface_tension st_scale s) = st_scale
   \<and> (set_surface_tension st_scale s)\<lparr>m_st_scale := m_st_scale s\<rparr> = s
   \<and> m_vel (set_surface_tension st_scale s) = m_vel s
   \<and> m_collision_vel (set_surface_tension st_scale s) = m_collision_vel s
   \<and> m_surface (set_surface_tension st_scale s) = m_surface s
   \<and> m_collision (set_surface_tension st_scale s) = m_collision s
   \<and> m_variableviscosity (set_surface_tension st_scale s) = m_variableviscosity s
   \<and> m_particles (set_surface_tension st_scale s) = m_particles s
   \<and> m_air_volume (set_surface_tension st_scale s) = m_air_volume s
   \<and> m_air_surface (set_surface_tension st_scale s) = m_air_surface s
   \<and> m_air_particles (set_surface_tension st_scale s) = m_air_particles s
   \<and> m_xform (set_surface_tension st_scale s) = m_xform s
   \<and> m_moving_solids (set_surface_tension st_scale s) = m_moving_solids s
   \<and> m_solve_viscosity (set_surface_tension st_scale s) = m_solve_viscosity s
   \<and> m_enforce_bubbles (set_surface_tension st_scale s) = m_enforce_bubbles s
   \<and> m_volume_correction (set_surface_tension st_scale s) = m_volume_correction s
   \<and> m_target_volume (set_surface_tension st_scale s) = m_target_volume s
   \<and> m_accum_error (set_surface_tension st_scale s) = m_accum_error s
   \<and> m_st_scale (set_surface_tension 0 s)
       = m_st_scale (FlipParticlesSimulation_new dflt xform nx nb)
   \<and> set_surface_tension 0 (FlipParticlesSimulation_new dflt xform nx nb)
       = FlipParticlesSimulation_new dflt xform nx nb"
  by (simp add: set_surface_tension_def FlipParticlesSimulation_new_def Let_def)

text \<open>
  C10. In a fresh simulation every face sample of the collision velocity is zero (the
  grid is built with the fill value 0), while the velocity grid is built without a
  fill value, so that none of its face samples has one; both grids carry the
  Transform and the resolution the simulation was constructed with.
\<close>

theorem fresh_velocity_grids:
  "vg_samples (m_collision_vel (FlipParticlesSimulation_new dflt xform nx nb))
     = replicate ((fst nx + 1) * snd nx + fst nx * (snd nx + 1)) (Some 0)
   \<and> m_collision_vel (FlipParticlesSimulation_new dflt xform nx nb)
       = VectorGrid_val xform nx 0 STAGGERED
   \<and> m_vel (FlipParticlesSimulation_new dflt xform nx nb) = VectorGrid_new xform nx STAGGERED
   \<and> vg_samples (m_vel (FlipParticlesSimulation_new dflt xform nx nb))
       = replicate ((fst nx + 1) * snd nx + fst nx * (snd nx + 1)) None
   \<and> vg_xform (m_vel (FlipParticlesSimulation_new dflt xform nx nb)) = xform
   \<and> vg_xform (m_collision_vel (FlipParticlesSimulation_new dflt xform nx nb)) = xform
   \<and> vg_size (m_vel (FlipParticlesSimulation_new dflt xform nx nb)) = nx
   \<and> vg_size (m_collision_vel (FlipParticlesSimulation_new dflt xform nx nb)) = nx"
  by (simp add: FlipParticlesSimulation_new_def VectorGrid_val_def VectorGrid_new_def
      ScalarGrid_val_def ScalarGrid_new_def vg_samples_def Let_def replicate_add)

section \<open>Properties of the driver's substep loop\<close>









section \<open>Properties of the substep loop in binary64\<close>































end
